theory Spec2Isabelle
  imports Main "HOL-Library.Sublist"
begin

section \<open>The recursive-descent parser of our_parser.py\<close>

subsection \<open>Data model\<close>

text \<open>
  A token is the tuple \<open>(token, lexeme)\<close> the scanner returns; both components are
  strings, and the parser compares the first one with string literals such as
  \<open>'IDENTIFIER'\<close>.
\<close>

type_synonym token = "string \<times> string"

text \<open>
  Class \<open>Node\<close>: \<open>name\<close>, \<open>value\<close> (\<open>None\<close> by default) and the list \<open>children\<close>.
  A \<open>Node\<close> defines neither \<open>__bool__\<close> nor \<open>__len__\<close>, so every node is truthy;
  the routines return "a node or \<open>None\<close>", which is \<open>node option\<close> here.
\<close>

datatype node = Node (node_name: string) (node_value: "string option") (children: "node list")

definition add_child :: "node \<Rightarrow> node \<Rightarrow> node" where
  "add_child nd child = Node (node_name nd) (node_value nd) (children nd @ [child])"

text \<open>The fields of a \<open>Parser\<close> instance.\<close>

record parser =
  tokens :: "token list"
  current_token :: "token option"
  index :: nat
  errors :: "string list"

text \<open>
  The only exception the parser can raise is the \<open>TypeError\<close> of subscripting
  \<open>self.current_token\<close> while it is \<open>None\<close>. An outcome is a normal return with the
  parser's fields after the call, a raise with the fields as they were at the raise, or
  the model's own \<open>OutOfFuel\<close>, which no Python run corresponds to.
\<close>

datatype error = TypeError

datatype 'a outcome = Returns 'a parser | Raises error parser | OutOfFuel

definition and_then :: "'a outcome \<Rightarrow> ('a \<Rightarrow> parser \<Rightarrow> 'b outcome) \<Rightarrow> 'b outcome" where
  "and_then m f = (case m of Returns r s \<Rightarrow> f r s | Raises e s \<Rightarrow> Raises e s | OutOfFuel \<Rightarrow> OutOfFuel)"

subsection \<open>Token cursor\<close>

definition consume_token :: "parser \<Rightarrow> parser" where
  "consume_token s =
     (if index s < length (tokens s)
      then s\<lparr>current_token := Some (tokens s ! index s), index := index s + 1\<rparr>
      else s\<lparr>current_token := None\<rparr>)"

definition match_token :: "parser \<Rightarrow> string \<Rightarrow> bool" where
  "match_token s expected_token =
     (case current_token s of None \<Rightarrow> False | Some (k, l) \<Rightarrow> k = expected_token)"

text \<open>\<open>self.current_token[1]\<close>: the lexeme, or the \<open>TypeError\<close> on \<open>None\<close>.\<close>

definition current_lexeme :: "parser \<Rightarrow> string outcome" where
  "current_lexeme s =
     (case current_token s of None \<Rightarrow> Raises TypeError s | Some (k, l) \<Rightarrow> Returns l s)"

text \<open>
  \<open>self.errors.append(f"<msg>{self.current_token[0]}: {self.current_token[1]}")\<close>:
  the f-string is evaluated first, so on \<open>None\<close> nothing is appended.
\<close>

definition append_found :: "string \<Rightarrow> parser \<Rightarrow> unit outcome" where
  "append_found msg s =
     (case current_token s of
        None \<Rightarrow> Raises TypeError s
      | Some (k, l) \<Rightarrow> Returns () (s\<lparr>errors := errors s @ [msg @ k @ '': '' @ l]\<rparr>))"

definition expect_token :: "parser \<Rightarrow> string \<Rightarrow> unit outcome" where
  "expect_token s expected_token =
     (if match_token s expected_token then Returns () (consume_token s)
      else append_found (''Expected '' @ [CHR 0x27] @ expected_token @ [CHR 0x27] @ '', found '') s)"

definition newline :: "parser \<Rightarrow> unit outcome" where
  "newline s = expect_token s ''NEWLINE''"

definition indent :: "parser \<Rightarrow> unit outcome" where
  "indent s = expect_token s ''INDENT''"

text \<open>
  The number of tokens not yet consumed, the current one included. It is the measure
  of every loop of the parser.
\<close>

definition remaining :: "parser \<Rightarrow> nat" where
  "remaining s = (length (tokens s) - index s) + (case current_token s of None \<Rightarrow> 0 | Some t \<Rightarrow> 1)"

function skip_whitespace :: "parser \<Rightarrow> parser" where
  "skip_whitespace s =
     (if match_token s ''WHITESPACE'' then skip_whitespace (consume_token s) else s)"
  by pat_completeness auto
termination
  by (relation "measure remaining")
     (auto simp: remaining_def consume_token_def match_token_def split: option.splits)

declare skip_whitespace.simps [simp del]

subsection \<open>Grammar routines\<close>

definition logical_expression :: "parser \<Rightarrow> node option outcome" where
  "logical_expression s = Returns None s"

text \<open>
  The routines call each other recursively, and the state one call leaves is the state
  the next one starts from. The first argument is fuel: every call into the recursive
  group spends one unit, and each \<open>while\<close> loop is a function of its own that is
  called once per test of the loop condition. The expression routines do not call the
  statement routines, so they are defined first.
\<close>

fun expression :: "nat \<Rightarrow> parser \<Rightarrow> node option outcome"
  and expression_loop :: "nat \<Rightarrow> node \<Rightarrow> parser \<Rightarrow> node option outcome"
  and "term" :: "nat \<Rightarrow> parser \<Rightarrow> node option outcome"
  and term_loop :: "nat \<Rightarrow> node \<Rightarrow> parser \<Rightarrow> node option outcome"
  and factor :: "nat \<Rightarrow> parser \<Rightarrow> node option outcome"
where
  "expression 0 s = OutOfFuel"
| "expression (Suc n) s =
     and_then (term n (skip_whitespace s)) (\<lambda>term_node s1.
       case term_node of
         Some t \<Rightarrow> expression_loop n (add_child (Node ''expression'' None []) t) s1
       | None \<Rightarrow> and_then (append_found ''Expected a term, found '' s1)
                   (\<lambda>u s2. Returns None s2))"

| "expression_loop 0 expression_node s = OutOfFuel"
| "expression_loop (Suc n) expression_node s =
     (if match_token s ''ARITHMETIC_OPERATOR'' then
        and_then (current_lexeme s) (\<lambda>l s0.
          let arithmetic_operator_node = Node ''arithmetic_operator'' (Some l) [] in
          and_then (term n (consume_token s0)) (\<lambda>term_node s1.
            case term_node of
              Some t \<Rightarrow>
                expression_loop n
                  (add_child (add_child expression_node arithmetic_operator_node) t) s1
            | None \<Rightarrow> and_then (append_found ''Expected a term, found '' s1)
                        (\<lambda>u s2. expression_loop n expression_node s2)))
      else Returns (Some expression_node) s)"

| "term 0 s = OutOfFuel"
| "term (Suc n) s =
     and_then (factor n (skip_whitespace s)) (\<lambda>factor_node s1.
       case factor_node of
         Some f \<Rightarrow> term_loop n (add_child (Node ''term'' None []) f) s1
       | None \<Rightarrow> and_then (append_found ''Expected a factor, found '' s1)
                   (\<lambda>u s2. Returns (Some (Node ''term'' None [])) s2))"

| "term_loop 0 term_node s = OutOfFuel"
| "term_loop (Suc n) term_node s =
     (if match_token s ''ARITHMETIC_OPERATOR'' then
        and_then (current_lexeme s) (\<lambda>l s0.
          let arithmetic_operator_node = Node ''arithmetic_operator'' (Some l) [] in
          and_then (factor n (consume_token s0)) (\<lambda>factor_node s1.
            case factor_node of
              Some f \<Rightarrow>
                term_loop n (add_child (add_child term_node arithmetic_operator_node) f) s1
            | None \<Rightarrow> and_then (append_found ''Expected a factor, found '' s1)
                        (\<lambda>u s2. term_loop n term_node s2)))
      else Returns (Some term_node) s)"

| "factor 0 s = OutOfFuel"
| "factor (Suc n) s =
     (let s1 = skip_whitespace s in
      if match_token s1 ''NUMBER'' then
        and_then (current_lexeme s1) (\<lambda>l s2.
          Returns (Some (Node ''number'' (Some l) [])) (consume_token s2))
      else if match_token s1 ''IDENTIFIER'' then
        and_then (current_lexeme s1) (\<lambda>l s2.
          Returns (Some (Node ''identifier'' (Some l) [])) (consume_token s2))
      else if match_token s1 ''STRING_LITERAL'' then
        and_then (current_lexeme s1) (\<lambda>l s2.
          Returns (Some (Node ''string_literal'' (Some l) [])) (consume_token s2))
      else if match_token s1 ''OPENING_PARENTHESIS'' then
        and_then (expression n (consume_token s1)) (\<lambda>expression_node s2.
          case expression_node of
            Some e \<Rightarrow>
              and_then (expect_token s2 ''CLOSING_PARENTHESIS'')
                (\<lambda>u s3. Returns (Some e) (consume_token s3))
          | None \<Rightarrow> Returns None s2)
      else if match_token s1 ''LOGICAL_EXPRESSION'' then logical_expression s1
      else
        (case current_token s1 of
           None \<Rightarrow> Raises TypeError s1
         | Some (k, l) \<Rightarrow>
             Returns None (consume_token (s1\<lparr>errors := errors s1 @ [''Invalid token '' @ k]\<rparr>))))"

fun statement_list :: "nat \<Rightarrow> parser \<Rightarrow> node option outcome"
  and statement_list_loop :: "nat \<Rightarrow> node \<Rightarrow> parser \<Rightarrow> node option outcome"
  and statement :: "nat \<Rightarrow> parser \<Rightarrow> node option outcome"
  and assignment_statement :: "nat \<Rightarrow> parser \<Rightarrow> node option outcome"
  and conditional_statement :: "nat \<Rightarrow> parser \<Rightarrow> node option outcome"
  and loop_statement :: "nat \<Rightarrow> parser \<Rightarrow> node option outcome"
  and block :: "nat \<Rightarrow> parser \<Rightarrow> node option outcome"
where
  "statement_list 0 s = OutOfFuel"
| "statement_list (Suc n) s = statement_list_loop n (Node ''statement_list'' None []) s"

| "statement_list_loop 0 statement_list_node s = OutOfFuel"
| "statement_list_loop (Suc n) statement_list_node s =
     (if current_token s \<noteq> None then
        and_then (statement n s) (\<lambda>statement_node s1.
          case statement_node of
            Some st \<Rightarrow> statement_list_loop n (add_child statement_list_node st) s1
          | None \<Rightarrow> Returns (Some statement_list_node) s1)
      else Returns (Some statement_list_node) s)"

| "statement 0 s = OutOfFuel"
| "statement (Suc n) s =
     and_then
       (if match_token s ''IDENTIFIER'' then assignment_statement n s
        else if match_token s ''CONDITIONAL_KEYWORD'' then conditional_statement n s
        else if match_token s ''LOOP_KEYWORD'' then loop_statement n s
        else and_then (append_found ''Expected a statement type, found '' s)
               (\<lambda>u s1. Returns None (consume_token s1)))
       (\<lambda>statement_node s2. and_then (newline s2) (\<lambda>u s3. Returns statement_node s3))"

| "assignment_statement 0 s = OutOfFuel"
| "assignment_statement (Suc n) s =
     (if match_token s ''IDENTIFIER'' then
        and_then (current_lexeme s) (\<lambda>l s0.
          let identifier_node = Node ''identifier'' (Some l) [];
              s1 = skip_whitespace (consume_token s0)
          in and_then (expect_token s1 ''ASSIGNMENT_OPERATOR'') (\<lambda>u s2.
             and_then (current_lexeme s2) (\<lambda>l2 s3.
               let assignment_operator_node = Node ''assignment_operator'' (Some l2) [];
                   s4 = skip_whitespace (consume_token s3)
               in and_then (expression n s4) (\<lambda>expression_node s5.
                    case expression_node of
                      Some e \<Rightarrow>
                        Returns (Some (add_child (add_child (add_child
                                   (Node ''assignment_statement'' None [])
                                   identifier_node) assignment_operator_node) e)) s5
                    | None \<Rightarrow>
                        and_then (append_found ''Expected an expression, found '' s5)
                          (\<lambda>u s6. Returns None s6)))))
      else and_then (append_found ''Expected an identifier, found '' s)
             (\<lambda>u s1. Returns None s1))"

| "conditional_statement 0 s = OutOfFuel"
| "conditional_statement (Suc n) s =
     (let s1 = skip_whitespace s in
      if match_token s1 ''CONDITIONAL_KEYWORD'' then
        and_then (current_lexeme s1) (\<lambda>l s2.
          let conditional_node = Node ''conditional_statement'' (Some l) [];
              s3 = consume_token s2
          in and_then (logical_expression s3) (\<lambda>logical_expression_node s4.
               case logical_expression_node of
                 None \<Rightarrow> Returns (Some conditional_node) s4
               | Some le \<Rightarrow>
                   and_then (block n s4) (\<lambda>block_node s5.
                     case block_node of
                       None \<Rightarrow> Returns (Some (add_child conditional_node le)) s5
                     | Some b \<Rightarrow>
                         if match_token s5 ''CONDITIONAL_KEYWORD'' then
                           and_then (block n (consume_token s5)) (\<lambda>else_block_node s6.
                             case else_block_node of
                               None \<Rightarrow>
                                 Returns (Some (add_child (add_child conditional_node le) b)) s6
                             | Some eb \<Rightarrow>
                                 Returns (Some (add_child (add_child
                                   (add_child conditional_node le) b) eb)) s6)
                         else Returns (Some (add_child (add_child conditional_node le) b)) s5)))
      else Returns None s1)"

| "loop_statement 0 s = OutOfFuel"
| "loop_statement (Suc n) s =
     (let s1 = skip_whitespace s in
      if match_token s1 ''LOOP_KEYWORD'' then
        and_then (current_lexeme s1) (\<lambda>l s2.
          let loop_node = Node ''loop_statement'' (Some l) [];
              s3 = consume_token s2
          in if match_token s3 ''IDENTIFIER'' then
               and_then (current_lexeme s3) (\<lambda>l2 s4.
                 let identifier_node = Node ''identifier'' (Some l2) [] in
                 and_then (expect_token (consume_token s4) ''COLON'') (\<lambda>u s5.
                 and_then (newline s5) (\<lambda>u s6.
                 and_then (indent s6) (\<lambda>u s7.
                 and_then (statement_list n s7) (\<lambda>statement_list_node s8.
                   case statement_list_node of
                     Some sl \<Rightarrow>
                       Returns (Some (add_child (add_child loop_node identifier_node) sl)) s8
                   | None \<Rightarrow> Returns (Some (add_child loop_node identifier_node)) s8)))))
             else and_then (append_found ''Expected an identifier, found '' s3)
                    (\<lambda>u s4. Returns (Some loop_node) s4))
      else Returns None s1)"

| "block 0 s = OutOfFuel"
| "block (Suc n) s =
     and_then (indent s) (\<lambda>u s1.
     and_then (statement_list n s1) (\<lambda>statement_list_node s2.
       case statement_list_node of
         Some sl \<Rightarrow> Returns (Some (add_child (Node ''block'' None []) sl)) s2
       | None \<Rightarrow> Returns (Some (Node ''block'' None [])) s2))"

text \<open>
  \<open>program\<close> and \<open>parse\<close>. The constructor stores the token list that
  \<open>lex_analyze\<close> of the scanner returns; the scanner is a separate module, so the
  token list is the argument of \<open>init\<close>. It leaves \<open>current_token = None\<close>,
  \<open>index = 0\<close> and no errors; \<open>parse\<close> loads the first token and returns the tree
  only when no error was recorded.
\<close>

definition program :: "nat \<Rightarrow> parser \<Rightarrow> node option outcome" where
  "program n s =
     and_then (statement_list n s) (\<lambda>statement_list_node s1.
       case statement_list_node of
         Some sl \<Rightarrow> Returns (Some (add_child (Node ''program'' None []) sl)) s1
       | None \<Rightarrow>
           Returns (Some (Node ''program'' None []))
             (s1\<lparr>errors := errors s1 @
                [''Expected a statement_list, found '' @
                 (case current_token s1 of Some (k, l) \<Rightarrow> k | None \<Rightarrow> ''end of input'')]\<rparr>))"

definition init :: "token list \<Rightarrow> parser" where
  "init toks = \<lparr>tokens = toks, current_token = None, index = 0, errors = []\<rparr>"

definition parse :: "nat \<Rightarrow> parser \<Rightarrow> node option outcome" where
  "parse n s =
     and_then (program n (consume_token s)) (\<lambda>parse_tree s1.
       if errors s1 = [] then Returns parse_tree s1 else Returns None s1)"

subsection \<open>The cursor only moves forward\<close>

text \<open>
  \<open>follows s s'\<close>: state \<open>s'\<close> can come after \<open>s\<close> in a run: the same token list,
  an index that is not smaller, an error log that extends the earlier one, and no more
  tokens left than before. \<open>keeps s m\<close> says so of the state an outcome ends in.
\<close>

definition follows :: "parser \<Rightarrow> parser \<Rightarrow> bool" where
  "follows s s' \<longleftrightarrow>
     tokens s' = tokens s \<and> index s \<le> index s' \<and> prefix (errors s) (errors s') \<and>
     remaining s' \<le> remaining s"

fun keeps :: "parser \<Rightarrow> 'a outcome \<Rightarrow> bool" where
  "keeps s (Returns r s') = follows s s'"
| "keeps s (Raises e s') = follows s s'"
| "keeps s OutOfFuel = True"

text \<open>
  \<open>never_rewinds s m\<close>: the state outcome \<open>m\<close> ends in has an index that is not
  smaller than that of \<open>s\<close> and an error log that starts with the log of \<open>s\<close>.
\<close>

definition never_rewinds :: "parser \<Rightarrow> 'a outcome \<Rightarrow> bool" where
  "never_rewinds s m =
     (case m of
        Returns r s' \<Rightarrow> index s \<le> index s' \<and> prefix (errors s) (errors s')
      | Raises e s' \<Rightarrow> index s \<le> index s' \<and> prefix (errors s) (errors s')
      | OutOfFuel \<Rightarrow> True)"

text \<open>
  \<open>finishes s m\<close>: the outcome is not \<open>OutOfFuel\<close>, and it ends in a state that
  follows \<open>s\<close>.
\<close>

fun finishes :: "parser \<Rightarrow> 'a outcome \<Rightarrow> bool" where
  "finishes s (Returns r s') = follows s s'"
| "finishes s (Raises e s') = follows s s'"
| "finishes s OutOfFuel = False"

text \<open>
  \<open>fuel_le a b\<close>: outcome \<open>b\<close>, computed with more fuel, agrees with \<open>a\<close> unless
  \<open>a\<close> ran out of fuel.
\<close>

definition fuel_le :: "'a outcome \<Rightarrow> 'a outcome \<Rightarrow> bool" where
  "fuel_le a b \<longleftrightarrow> a = OutOfFuel \<or> a = b"

subsection \<open>Example inputs\<close>

text \<open>
  The token sequences the properties are checked on: \<open>x = 1\<close> and a newline,
  \<open>a + 1 * 2\<close>, \<open>( a + 1 )\<close>, \<open>( a + 1\<close>, a conditional with its block, and the
  single token \<open>1\<close>.
\<close>

definition tokens_assignment :: "token list" where
  "tokens_assignment =
     [(''IDENTIFIER'', ''x''), (''ASSIGNMENT_OPERATOR'', ''=''), (''NUMBER'', ''1''),
      (''NEWLINE'', ''\<newline>'')]"

definition tokens_sum_product :: "token list" where
  "tokens_sum_product =
     [(''IDENTIFIER'', ''a''), (''ARITHMETIC_OPERATOR'', ''+''), (''NUMBER'', ''1''),
      (''ARITHMETIC_OPERATOR'', ''*''), (''NUMBER'', ''2'')]"

definition tokens_parenthesised :: "token list" where
  "tokens_parenthesised =
     [(''OPENING_PARENTHESIS'', ''(''), (''IDENTIFIER'', ''a''), (''ARITHMETIC_OPERATOR'', ''+''),
      (''NUMBER'', ''1''), (''CLOSING_PARENTHESIS'', '')'')]"

definition tokens_unclosed :: "token list" where
  "tokens_unclosed =
     [(''OPENING_PARENTHESIS'', ''(''), (''IDENTIFIER'', ''a''), (''ARITHMETIC_OPERATOR'', ''+''),
      (''NUMBER'', ''1'')]"

definition tokens_conditional :: "token list" where
  "tokens_conditional =
     [(''CONDITIONAL_KEYWORD'', ''if''), (''IDENTIFIER'', ''c''), (''COLON'', '':''),
      (''NEWLINE'', ''\<newline>''), (''INDENT'', ''    ''), (''IDENTIFIER'', ''x''),
      (''ASSIGNMENT_OPERATOR'', ''=''), (''NUMBER'', ''1''), (''NEWLINE'', ''\<newline>'')]"

definition tokens_number :: "token list" where
  "tokens_number = [(''NUMBER'', ''1'')]"

section \<open>Properties\<close>

subsection \<open>Every operation keeps \<open>follows\<close>\<close>

lemma and_then_simps [simp]:
  "and_then (Returns r s) f = f r s"
  "and_then (Raises e s) f = Raises e s"
  "and_then OutOfFuel f = OutOfFuel"
  by (simp_all add: and_then_def)

lemma follows_refl [simp]: "follows s s"
  by (simp add: follows_def)

lemma follows_trans: "follows s t \<Longrightarrow> follows t u \<Longrightarrow> follows s u"
  unfolding follows_def by (auto intro: prefix_order.trans)

lemma follows_consume_token: "follows s (consume_token s)"
  by (auto simp: follows_def consume_token_def remaining_def split: option.splits)

lemma follows_consumeI: "follows s t \<Longrightarrow> follows s (consume_token t)"
  by (blast intro: follows_trans follows_consume_token)

lemma follows_skip_whitespace: "follows s (skip_whitespace s)"
proof (induction s rule: skip_whitespace.induct)
  case (1 s)
  show ?case
  proof (cases "match_token s ''WHITESPACE''")
    case True
    with 1 have "follows (consume_token s) (skip_whitespace s)"
      by (simp add: skip_whitespace.simps [of s])
    then show ?thesis by (blast intro: follows_trans follows_consume_token)
  next
    case False
    then show ?thesis by (simp add: skip_whitespace.simps [of s])
  qed
qed

lemma follows_skipI: "follows s t \<Longrightarrow> follows s (skip_whitespace t)"
  by (blast intro: follows_trans follows_skip_whitespace)

lemma follows_errorsI: "follows s t \<Longrightarrow> follows s (t\<lparr>errors := errors t @ es\<rparr>)"
  by (auto simp: follows_def remaining_def intro: prefix_order.trans)

lemma keeps_follows: "follows s t \<Longrightarrow> keeps t m \<Longrightarrow> keeps s m"
  by (cases m) (auto intro: follows_trans)

lemma keeps_and_then:
  "keeps s m \<Longrightarrow> (\<And>r s1. m = Returns r s1 \<Longrightarrow> follows s s1 \<Longrightarrow> keeps s (f r s1))
   \<Longrightarrow> keeps s (and_then m f)"
  by (cases m) auto

lemma keeps_current_lexeme: "follows s t \<Longrightarrow> keeps s (current_lexeme t)"
  by (auto simp: current_lexeme_def split: option.splits)

lemma keeps_append_found: "follows s t \<Longrightarrow> keeps s (append_found msg t)"
  by (auto simp: append_found_def intro: follows_errorsI split: option.splits)

lemma keeps_expect_token: "follows s t \<Longrightarrow> keeps s (expect_token t k)"
  by (auto simp: expect_token_def intro: follows_consumeI keeps_append_found)

lemma keeps_newline: "follows s t \<Longrightarrow> keeps s (newline t)"
  by (simp add: newline_def keeps_expect_token)

lemma keeps_indent: "follows s t \<Longrightarrow> keeps s (indent t)"
  by (simp add: indent_def keeps_expect_token)

lemma keeps_logical_expression: "follows s t \<Longrightarrow> keeps s (logical_expression t)"
  by (simp add: logical_expression_def)

lemmas keeps_intros =
  keeps_and_then keeps_current_lexeme keeps_append_found keeps_expect_token keeps_newline
  keeps_indent keeps_logical_expression follows_consumeI follows_skipI follows_errorsI

lemma keeps_factor_step:
  assumes "\<And>s t. follows s t \<Longrightarrow> keeps s (expression n t)"
  shows "follows s t \<Longrightarrow> keeps s (factor (Suc n) t)"
  by (auto simp: Let_def intro!: keeps_intros assms split: option.split)

lemma keeps_term_loop_step:
  assumes "\<And>s t. follows s t \<Longrightarrow> keeps s (factor n t)"
    and "\<And>s nd t. follows s t \<Longrightarrow> keeps s (term_loop n nd t)"
  shows "follows s t \<Longrightarrow> keeps s (term_loop (Suc n) nd t)"
  by (auto simp: Let_def intro!: keeps_intros assms split: option.split)

lemma keeps_term_step:
  assumes "\<And>s t. follows s t \<Longrightarrow> keeps s (factor n t)"
    and "\<And>s nd t. follows s t \<Longrightarrow> keeps s (term_loop n nd t)"
  shows "follows s t \<Longrightarrow> keeps s (term (Suc n) t)"
  by (auto simp: Let_def intro!: keeps_intros assms split: option.split)

lemma keeps_expression_loop_step:
  assumes "\<And>s t. follows s t \<Longrightarrow> keeps s (term n t)"
    and "\<And>s nd t. follows s t \<Longrightarrow> keeps s (expression_loop n nd t)"
  shows "follows s t \<Longrightarrow> keeps s (expression_loop (Suc n) nd t)"
  by (auto simp: Let_def intro!: keeps_intros assms split: option.split)

lemma keeps_expression_step:
  assumes "\<And>s t. follows s t \<Longrightarrow> keeps s (term n t)"
    and "\<And>s nd t. follows s t \<Longrightarrow> keeps s (expression_loop n nd t)"
  shows "follows s t \<Longrightarrow> keeps s (expression (Suc n) t)"
  by (auto simp: Let_def intro!: keeps_intros assms split: option.split)

lemma keeps_expression_group:
  "(\<forall>s t. follows s t \<longrightarrow> keeps s (expression n t)) \<and>
   (\<forall>s nd t. follows s t \<longrightarrow> keeps s (expression_loop n nd t)) \<and>
   (\<forall>s t. follows s t \<longrightarrow> keeps s (term n t)) \<and>
   (\<forall>s nd t. follows s t \<longrightarrow> keeps s (term_loop n nd t)) \<and>
   (\<forall>s t. follows s t \<longrightarrow> keeps s (factor n t))"
proof (induction n)
  case 0
  show ?case by simp
next
  case (Suc n)
  then show ?case
    by (intro conjI allI impI keeps_expression_step keeps_expression_loop_step
        keeps_term_step keeps_term_loop_step keeps_factor_step) blast+
qed

lemmas keeps_expression = keeps_expression_group [THEN conjunct1, rule_format]

lemma keeps_statement_list_step:
  assumes "\<And>s nd t. follows s t \<Longrightarrow> keeps s (statement_list_loop n nd t)"
  shows "follows s t \<Longrightarrow> keeps s (statement_list (Suc n) t)"
  by (auto simp: Let_def intro!: keeps_intros assms split: option.split)

lemma keeps_statement_list_loop_step:
  assumes "\<And>s t. follows s t \<Longrightarrow> keeps s (statement n t)"
    and "\<And>s nd t. follows s t \<Longrightarrow> keeps s (statement_list_loop n nd t)"
  shows "follows s t \<Longrightarrow> keeps s (statement_list_loop (Suc n) nd t)"
  by (auto simp: Let_def intro!: keeps_intros assms split: option.split)

lemma keeps_statement_step:
  assumes "\<And>s t. follows s t \<Longrightarrow> keeps s (assignment_statement n t)"
    and "\<And>s t. follows s t \<Longrightarrow> keeps s (conditional_statement n t)"
    and "\<And>s t. follows s t \<Longrightarrow> keeps s (loop_statement n t)"
  shows "follows s t \<Longrightarrow> keeps s (statement (Suc n) t)"
  by (auto simp: Let_def intro!: keeps_intros assms split: option.split)

lemma keeps_assignment_statement_step:
  "follows s t \<Longrightarrow> keeps s (assignment_statement (Suc n) t)"
  by (auto simp: Let_def intro!: keeps_intros keeps_expression split: option.split)

lemma keeps_conditional_statement_step:
  assumes "\<And>s t. follows s t \<Longrightarrow> keeps s (block n t)"
  shows "follows s t \<Longrightarrow> keeps s (conditional_statement (Suc n) t)"
  by (auto simp: Let_def intro!: keeps_intros assms split: option.split)

lemma keeps_loop_statement_step:
  assumes "\<And>s t. follows s t \<Longrightarrow> keeps s (statement_list n t)"
  shows "follows s t \<Longrightarrow> keeps s (loop_statement (Suc n) t)"
  by (auto simp: Let_def intro!: keeps_intros assms split: option.split)

lemma keeps_block_step:
  assumes "\<And>s t. follows s t \<Longrightarrow> keeps s (statement_list n t)"
  shows "follows s t \<Longrightarrow> keeps s (block (Suc n) t)"
  by (auto simp: Let_def intro!: keeps_intros assms split: option.split)

lemma keeps_statement_group:
  "(\<forall>s t. follows s t \<longrightarrow> keeps s (statement_list n t)) \<and>
   (\<forall>s nd t. follows s t \<longrightarrow> keeps s (statement_list_loop n nd t)) \<and>
   (\<forall>s t. follows s t \<longrightarrow> keeps s (statement n t)) \<and>
   (\<forall>s t. follows s t \<longrightarrow> keeps s (assignment_statement n t)) \<and>
   (\<forall>s t. follows s t \<longrightarrow> keeps s (conditional_statement n t)) \<and>
   (\<forall>s t. follows s t \<longrightarrow> keeps s (loop_statement n t)) \<and>
   (\<forall>s t. follows s t \<longrightarrow> keeps s (block n t))"
proof (induction n)
  case 0
  show ?case by simp
next
  case (Suc n)
  then show ?case
    by (intro conjI allI impI keeps_statement_list_step keeps_statement_list_loop_step
        keeps_statement_step keeps_assignment_statement_step keeps_conditional_statement_step
        keeps_loop_statement_step keeps_block_step) blast+
qed

lemma keeps_program: "keeps s (program n s)"
  unfolding program_def
  by (auto simp: Let_def intro!: keeps_intros keeps_statement_group [THEN conjunct1, rule_format]
      split: option.split)

lemma keeps_parse: "keeps s (parse n s)"
  unfolding parse_def
  by (auto simp: Let_def intro!: keeps_intros keeps_follows [OF _ keeps_program] split: option.split)


subsection \<open>Enough fuel: five units per remaining token\<close>

text \<open>
  Each routine has a rank, the number of calls it can make before a token is consumed.
  A routine of rank \<open>d\<close> started with \<open>k\<close> tokens left finishes with any fuel above
  \<open>5 * k + d\<close>: a call on the same state goes to a lower rank, and every other call
  comes after a token was consumed.
\<close>

lemma finishes_and_then:
  "finishes s m \<Longrightarrow> (\<And>r s1. m = Returns r s1 \<Longrightarrow> follows s s1 \<Longrightarrow> finishes s (f r s1))
   \<Longrightarrow> finishes s (and_then m f)"
  by (cases m) auto

lemma finishes_weaken: "follows s t \<Longrightarrow> finishes t m \<Longrightarrow> finishes s m"
  by (cases m) (auto intro: follows_trans)

lemma finishes_current_lexeme: "follows s t \<Longrightarrow> finishes s (current_lexeme t)"
  by (auto simp: current_lexeme_def split: option.splits)

lemma finishes_append_found: "follows s t \<Longrightarrow> finishes s (append_found msg t)"
  by (auto simp: append_found_def intro: follows_errorsI split: option.splits)

lemma finishes_expect_token: "follows s t \<Longrightarrow> finishes s (expect_token t k)"
  by (auto simp: expect_token_def intro: follows_consumeI finishes_append_found)

lemma finishes_newline: "follows s t \<Longrightarrow> finishes s (newline t)"
  by (simp add: newline_def finishes_expect_token)

lemma finishes_indent: "follows s t \<Longrightarrow> finishes s (indent t)"
  by (simp add: indent_def finishes_expect_token)

lemma finishes_logical_expression: "follows s t \<Longrightarrow> finishes s (logical_expression t)"
  by (simp add: logical_expression_def)

lemmas finishes_intros =
  finishes_and_then finishes_current_lexeme finishes_append_found finishes_expect_token
  finishes_newline finishes_indent finishes_logical_expression
  follows_refl follows_consumeI follows_skipI follows_errorsI

text \<open>A callee that finishes from every state with enough fuel finishes from a later state.\<close>

lemma finishes_callee:
  assumes "\<And>t. 5 * remaining t + d < n \<Longrightarrow> finishes t (g t)"
    and "follows s t" and "5 * remaining s + d < n"
  shows "finishes s (g t)"
proof -
  from assms(2) have "remaining t \<le> remaining s" by (simp add: follows_def)
  with assms(3) have "5 * remaining t + d < n" by simp
  then have "finishes t (g t)" by (rule assms(1))
  with assms(2) show ?thesis by (rule finishes_weaken)
qed

lemma match_token_Some: "match_token s k \<Longrightarrow> \<exists>l. current_token s = Some (k, l)"
  by (auto simp: match_token_def split: option.splits)

lemma consume_token_bound:
  "current_token s \<noteq> None \<Longrightarrow> 5 * remaining s < Suc n
   \<Longrightarrow> 5 * remaining (consume_token s) + 4 < n"
  by (auto simp: remaining_def consume_token_def)

lemma finishes_factor_step:
  assumes E: "\<And>t. 5 * remaining t + 2 < n \<Longrightarrow> finishes t (expression n t)"
    and B: "5 * remaining t + 0 < Suc n"
  shows "finishes t (factor (Suc n) t)"
proof (cases "match_token (skip_whitespace t) ''OPENING_PARENTHESIS''")
  case True
  then obtain l where c: "current_token (skip_whitespace t) = Some (''OPENING_PARENTHESIS'', l)"
    by (blast dest: match_token_Some)
  have "remaining (skip_whitespace t) \<le> remaining t"
    using follows_skip_whitespace [of t] by (simp add: follows_def)
  with B have "5 * remaining (skip_whitespace t) < Suc n" by simp
  with c have b: "5 * remaining (consume_token (skip_whitespace t)) + 4 < n"
    by (intro consume_token_bound) simp_all
  have "finishes (consume_token (skip_whitespace t)) (factor (Suc n) t)"
    using c b
    by (auto simp: Let_def match_token_def
        intro!: finishes_intros finishes_callee [where g = "expression n", OF E]
        split: option.split)
  then show ?thesis
    by (rule finishes_weaken [rotated]) (intro follows_consumeI follows_skipI follows_refl)
next
  case False
  then show ?thesis
    by (auto simp: Let_def intro!: finishes_intros split: option.split)
qed


lemma current_lexeme_Some: "current_token s = Some (k, l) \<Longrightarrow> current_lexeme s = Returns l s"
  by (simp add: current_lexeme_def)

lemma skip_whitespace_no_match:
  "\<not> match_token s ''WHITESPACE'' \<Longrightarrow> skip_whitespace s = s"
  by (subst skip_whitespace.simps) simp

lemma consume_token_errors_update [simp]:
  "consume_token (s\<lparr>errors := es\<rparr>) = (consume_token s)\<lparr>errors := es\<rparr>"
  by (simp add: consume_token_def)

lemma errors_consume_token [simp]: "errors (consume_token s) = errors s"
  by (simp add: consume_token_def)

lemma follows_errors_prefixI:
  "follows s t \<Longrightarrow> prefix (errors t) es \<Longrightarrow> follows s (t\<lparr>errors := es\<rparr>)"
  by (auto simp: follows_def remaining_def intro: prefix_order.trans)

lemma finishes_term_loop_step:
  assumes F: "\<And>t. 5 * remaining t + 0 < n \<Longrightarrow> finishes t (factor n t)"
    and L: "\<And>nd t. 5 * remaining t + 0 < n \<Longrightarrow> finishes t (term_loop n nd t)"
    and B: "5 * remaining t + 0 < Suc n"
  shows "finishes t (term_loop (Suc n) nd t)"
proof (cases "match_token t ''ARITHMETIC_OPERATOR''")
  case True
  then obtain l where c: "current_token t = Some (''ARITHMETIC_OPERATOR'', l)"
    by (blast dest: match_token_Some)
  with B have b: "5 * remaining (consume_token t) + 4 < n"
    by (intro consume_token_bound) simp_all
  have "finishes (consume_token t) (term_loop (Suc n) nd t)"
    using True b
    by (auto simp: Let_def current_lexeme_Some [OF c]
        intro!: finishes_intros finishes_callee [OF F] finishes_callee [OF L]
        split: option.split)
  then show ?thesis
    by (rule finishes_weaken [rotated]) (intro follows_consumeI follows_refl)
next
  case False
  then show ?thesis by simp
qed

lemma finishes_term_step:
  assumes F: "\<And>t. 5 * remaining t + 0 < n \<Longrightarrow> finishes t (factor n t)"
    and L: "\<And>nd t. 5 * remaining t + 0 < n \<Longrightarrow> finishes t (term_loop n nd t)"
    and B: "5 * remaining t + 1 < Suc n"
  shows "finishes t (term (Suc n) t)"
  using B
  by (auto simp: Let_def
      intro!: finishes_intros finishes_callee [OF F] finishes_callee [OF L]
      split: option.split)

lemma finishes_expression_loop_step:
  assumes T: "\<And>t. 5 * remaining t + 1 < n \<Longrightarrow> finishes t (term n t)"
    and L: "\<And>nd t. 5 * remaining t + 0 < n \<Longrightarrow> finishes t (expression_loop n nd t)"
    and B: "5 * remaining t + 0 < Suc n"
  shows "finishes t (expression_loop (Suc n) nd t)"
proof (cases "match_token t ''ARITHMETIC_OPERATOR''")
  case True
  then obtain l where c: "current_token t = Some (''ARITHMETIC_OPERATOR'', l)"
    by (blast dest: match_token_Some)
  with B have b: "5 * remaining (consume_token t) + 4 < n"
    by (intro consume_token_bound) simp_all
  have "finishes (consume_token t) (expression_loop (Suc n) nd t)"
    using True b
    by (auto simp: Let_def current_lexeme_Some [OF c]
        intro!: finishes_intros finishes_callee [OF T] finishes_callee [OF L]
        split: option.split)
  then show ?thesis
    by (rule finishes_weaken [rotated]) (intro follows_consumeI follows_refl)
next
  case False
  then show ?thesis by simp
qed

lemma finishes_expression_step:
  assumes T: "\<And>t. 5 * remaining t + 1 < n \<Longrightarrow> finishes t (term n t)"
    and L: "\<And>nd t. 5 * remaining t + 0 < n \<Longrightarrow> finishes t (expression_loop n nd t)"
    and B: "5 * remaining t + 2 < Suc n"
  shows "finishes t (expression (Suc n) t)"
  using B
  by (auto simp: Let_def
      intro!: finishes_intros finishes_callee [OF T] finishes_callee [OF L]
      split: option.split)

lemma finishes_expression_group:
  "(\<forall>t. 5 * remaining t + 2 < n \<longrightarrow> finishes t (expression n t)) \<and>
   (\<forall>nd t. 5 * remaining t + 0 < n \<longrightarrow> finishes t (expression_loop n nd t)) \<and>
   (\<forall>t. 5 * remaining t + 1 < n \<longrightarrow> finishes t (term n t)) \<and>
   (\<forall>nd t. 5 * remaining t + 0 < n \<longrightarrow> finishes t (term_loop n nd t)) \<and>
   (\<forall>t. 5 * remaining t + 0 < n \<longrightarrow> finishes t (factor n t))"
proof (induction n)
  case 0
  show ?case by simp
next
  case (Suc n)
  then show ?case
    by (intro conjI allI impI finishes_expression_step finishes_expression_loop_step
        finishes_term_step finishes_term_loop_step finishes_factor_step) blast+
qed

lemmas finishes_expression = finishes_expression_group [THEN conjunct1, rule_format]

lemma finishes_statement_list_step:
  assumes L: "\<And>nd t. 5 * remaining t + 2 < n \<Longrightarrow> finishes t (statement_list_loop n nd t)"
    and B: "5 * remaining t + 3 < Suc n"
  shows "finishes t (statement_list (Suc n) t)"
  using B by (auto intro!: L)

lemma finishes_statement_list_loop_step:
  assumes S: "\<And>t. current_token t \<noteq> None \<Longrightarrow> 5 * remaining t + 1 < n
                \<Longrightarrow> finishes (consume_token t) (statement n t)"
    and L: "\<And>nd t. 5 * remaining t + 2 < n \<Longrightarrow> finishes t (statement_list_loop n nd t)"
    and B: "5 * remaining t + 2 < Suc n"
  shows "finishes t (statement_list_loop (Suc n) nd t)"
proof (cases "current_token t = None")
  case True
  then show ?thesis by simp
next
  case False
  with B have b: "5 * remaining (consume_token t) + 4 < n"
    by (intro consume_token_bound) simp_all
  have "finishes (consume_token t) (statement_list_loop (Suc n) nd t)"
    using False b B
    by (auto intro!: finishes_intros S finishes_callee [OF L] split: option.split)
  then show ?thesis
    by (rule finishes_weaken [rotated]) (intro follows_consumeI follows_refl)
qed

lemma finishes_statement_step:
  assumes A: "\<And>t. match_token t ''IDENTIFIER'' \<Longrightarrow> 5 * remaining t + 0 < n
                \<Longrightarrow> finishes (consume_token t) (assignment_statement n t)"
    and C: "\<And>t. match_token t ''CONDITIONAL_KEYWORD'' \<Longrightarrow> 5 * remaining t + 0 < n
                \<Longrightarrow> finishes (consume_token t) (conditional_statement n t)"
    and L: "\<And>t. match_token t ''LOOP_KEYWORD'' \<Longrightarrow> 5 * remaining t + 0 < n
                \<Longrightarrow> finishes (consume_token t) (loop_statement n t)"
    and N: "current_token t \<noteq> None"
    and B: "5 * remaining t + 1 < Suc n"
  shows "finishes (consume_token t) (statement (Suc n) t)"
proof -
  from N obtain k l where c: "current_token t = Some (k, l)" by auto
  show ?thesis
    using B c
    by (auto simp: append_found_def intro!: finishes_intros A C L
        intro: follows_errors_prefixI)
qed

lemma finishes_assignment_statement_step:
  assumes M: "match_token t ''IDENTIFIER''"
    and B: "5 * remaining t + 0 < Suc n"
  shows "finishes (consume_token t) (assignment_statement (Suc n) t)"
proof -
  from M obtain l where c: "current_token t = Some (''IDENTIFIER'', l)"
    by (blast dest: match_token_Some)
  with B have b: "5 * remaining (consume_token t) + 4 < n"
    by (intro consume_token_bound) simp_all
  show ?thesis
    using M b
    by (auto simp: Let_def current_lexeme_Some [OF c]
        intro!: finishes_intros finishes_callee [OF finishes_expression]
        split: option.split)
qed

lemma finishes_conditional_statement_step:
  assumes M: "match_token t ''CONDITIONAL_KEYWORD''"
  shows "finishes (consume_token t) (conditional_statement (Suc n) t)"
proof -
  from M obtain l where c: "current_token t = Some (''CONDITIONAL_KEYWORD'', l)"
    by (blast dest: match_token_Some)
  then have "skip_whitespace t = t"
    by (intro skip_whitespace_no_match) (simp add: match_token_def)
  then show ?thesis
    using M by (simp add: Let_def current_lexeme_Some [OF c] logical_expression_def)
qed

lemma finishes_loop_statement_step:
  assumes S: "\<And>t. 5 * remaining t + 3 < n \<Longrightarrow> finishes t (statement_list n t)"
    and M: "match_token t ''LOOP_KEYWORD''"
    and B: "5 * remaining t + 0 < Suc n"
  shows "finishes (consume_token t) (loop_statement (Suc n) t)"
proof -
  from M obtain l where c: "current_token t = Some (''LOOP_KEYWORD'', l)"
    by (blast dest: match_token_Some)
  then have sk: "skip_whitespace t = t"
    by (intro skip_whitespace_no_match) (simp add: match_token_def)
  from c B have b: "5 * remaining (consume_token t) + 4 < n"
    by (intro consume_token_bound) simp_all
  show ?thesis
    using M b
    by (auto simp: Let_def sk current_lexeme_Some [OF c]
        intro!: finishes_intros finishes_callee [OF S]
        split: option.split)
qed

lemma finishes_block_step:
  assumes S: "\<And>t. 5 * remaining t + 3 < n \<Longrightarrow> finishes t (statement_list n t)"
    and B: "5 * remaining t + 4 < Suc n"
  shows "finishes t (block (Suc n) t)"
  using B
  by (auto simp: Let_def intro!: finishes_intros finishes_callee [OF S] split: option.split)

lemma finishes_statement_group:
  "(\<forall>t. 5 * remaining t + 3 < n \<longrightarrow> finishes t (statement_list n t)) \<and>
   (\<forall>nd t. 5 * remaining t + 2 < n \<longrightarrow> finishes t (statement_list_loop n nd t)) \<and>
   (\<forall>t. current_token t \<noteq> None \<longrightarrow> 5 * remaining t + 1 < n \<longrightarrow>
      finishes (consume_token t) (statement n t)) \<and>
   (\<forall>t. match_token t ''IDENTIFIER'' \<longrightarrow> 5 * remaining t + 0 < n \<longrightarrow>
      finishes (consume_token t) (assignment_statement n t)) \<and>
   (\<forall>t. match_token t ''CONDITIONAL_KEYWORD'' \<longrightarrow> 5 * remaining t + 0 < n \<longrightarrow>
      finishes (consume_token t) (conditional_statement n t)) \<and>
   (\<forall>t. match_token t ''LOOP_KEYWORD'' \<longrightarrow> 5 * remaining t + 0 < n \<longrightarrow>
      finishes (consume_token t) (loop_statement n t)) \<and>
   (\<forall>t. 5 * remaining t + 4 < n \<longrightarrow> finishes t (block n t))"
proof (induction n)
  case 0
  show ?case by simp
next
  case (Suc n)
  then show ?case
    by (intro conjI allI impI finishes_statement_list_step finishes_statement_list_loop_step
        finishes_statement_step finishes_assignment_statement_step
        finishes_conditional_statement_step finishes_loop_statement_step
        finishes_block_step) blast+
qed

subsection \<open>More fuel never changes an outcome\<close>

lemma fuel_le_refl [simp]: "fuel_le a a"
  by (simp add: fuel_le_def)

lemma fuel_le_OutOfFuel [simp]: "fuel_le OutOfFuel b"
  by (simp add: fuel_le_def)

lemma fuel_le_and_then:
  "fuel_le m m' \<Longrightarrow> (\<And>r s. fuel_le (f r s) (f' r s))
   \<Longrightarrow> fuel_le (and_then m f) (and_then m' f')"
  unfolding fuel_le_def by (cases m) fastforce+

lemma fuel_le_factor_step:
  assumes "\<And>t. fuel_le (expression n t) (expression n' t)"
  shows "fuel_le (factor (Suc n) t) (factor (Suc n') t)"
  by (auto simp: Let_def intro!: fuel_le_and_then assms split: option.split)

lemma fuel_le_term_loop_step:
  assumes "\<And>t. fuel_le (factor n t) (factor n' t)"
    and "\<And>nd t. fuel_le (term_loop n nd t) (term_loop n' nd t)"
  shows "fuel_le (term_loop (Suc n) nd t) (term_loop (Suc n') nd t)"
  by (auto simp: Let_def intro!: fuel_le_and_then assms split: option.split)

lemma fuel_le_term_step:
  assumes "\<And>t. fuel_le (factor n t) (factor n' t)"
    and "\<And>nd t. fuel_le (term_loop n nd t) (term_loop n' nd t)"
  shows "fuel_le (term (Suc n) t) (term (Suc n') t)"
  by (auto simp: Let_def intro!: fuel_le_and_then assms split: option.split)

lemma fuel_le_expression_loop_step:
  assumes "\<And>t. fuel_le (term n t) (term n' t)"
    and "\<And>nd t. fuel_le (expression_loop n nd t) (expression_loop n' nd t)"
  shows "fuel_le (expression_loop (Suc n) nd t) (expression_loop (Suc n') nd t)"
  by (auto simp: Let_def intro!: fuel_le_and_then assms split: option.split)

lemma fuel_le_expression_step:
  assumes "\<And>t. fuel_le (term n t) (term n' t)"
    and "\<And>nd t. fuel_le (expression_loop n nd t) (expression_loop n' nd t)"
  shows "fuel_le (expression (Suc n) t) (expression (Suc n') t)"
  by (auto simp: Let_def intro!: fuel_le_and_then assms split: option.split)

lemma fuel_le_expression_group:
  "n \<le> n' \<Longrightarrow>
   (\<forall>t. fuel_le (expression n t) (expression n' t)) \<and>
   (\<forall>nd t. fuel_le (expression_loop n nd t) (expression_loop n' nd t)) \<and>
   (\<forall>t. fuel_le (term n t) (term n' t)) \<and>
   (\<forall>nd t. fuel_le (term_loop n nd t) (term_loop n' nd t)) \<and>
   (\<forall>t. fuel_le (factor n t) (factor n' t))"
proof (induction n arbitrary: n')
  case 0
  show ?case by simp
next
  case (Suc n)
  from Suc.prems obtain m where m: "n' = Suc m" and le: "n \<le> m"
    by (cases n') auto
  from Suc.IH [OF le] show ?case
    unfolding m
    by (intro conjI allI fuel_le_expression_step fuel_le_expression_loop_step
        fuel_le_term_step fuel_le_term_loop_step fuel_le_factor_step) blast+
qed

lemmas fuel_le_expression = fuel_le_expression_group [THEN conjunct1, rule_format]

lemma fuel_le_statement_list_step:
  assumes "\<And>nd t. fuel_le (statement_list_loop n nd t) (statement_list_loop n' nd t)"
  shows "fuel_le (statement_list (Suc n) t) (statement_list (Suc n') t)"
  by (auto simp: Let_def intro!: fuel_le_and_then assms split: option.split)

lemma fuel_le_statement_list_loop_step:
  assumes "\<And>t. fuel_le (statement n t) (statement n' t)"
    and "\<And>nd t. fuel_le (statement_list_loop n nd t) (statement_list_loop n' nd t)"
  shows "fuel_le (statement_list_loop (Suc n) nd t) (statement_list_loop (Suc n') nd t)"
  by (auto simp: Let_def intro!: fuel_le_and_then assms split: option.split)

lemma fuel_le_statement_step:
  assumes "\<And>t. fuel_le (assignment_statement n t) (assignment_statement n' t)"
    and "\<And>t. fuel_le (conditional_statement n t) (conditional_statement n' t)"
    and "\<And>t. fuel_le (loop_statement n t) (loop_statement n' t)"
  shows "fuel_le (statement (Suc n) t) (statement (Suc n') t)"
  by (auto simp: Let_def intro!: fuel_le_and_then assms split: option.split)

lemma fuel_le_assignment_statement_step:
  assumes "n \<le> n'"
  shows "fuel_le (assignment_statement (Suc n) t) (assignment_statement (Suc n') t)"
  by (auto simp: Let_def intro!: fuel_le_and_then fuel_le_expression assms split: option.split)

lemma fuel_le_conditional_statement_step:
  assumes "\<And>t. fuel_le (block n t) (block n' t)"
  shows "fuel_le (conditional_statement (Suc n) t) (conditional_statement (Suc n') t)"
  by (auto simp: Let_def intro!: fuel_le_and_then assms split: option.split)

lemma fuel_le_loop_statement_step:
  assumes "\<And>t. fuel_le (statement_list n t) (statement_list n' t)"
  shows "fuel_le (loop_statement (Suc n) t) (loop_statement (Suc n') t)"
  by (auto simp: Let_def intro!: fuel_le_and_then assms split: option.split)

lemma fuel_le_block_step:
  assumes "\<And>t. fuel_le (statement_list n t) (statement_list n' t)"
  shows "fuel_le (block (Suc n) t) (block (Suc n') t)"
  by (auto simp: Let_def intro!: fuel_le_and_then assms split: option.split)

lemma fuel_le_statement_group:
  "n \<le> n' \<Longrightarrow>
   (\<forall>t. fuel_le (statement_list n t) (statement_list n' t)) \<and>
   (\<forall>nd t. fuel_le (statement_list_loop n nd t) (statement_list_loop n' nd t)) \<and>
   (\<forall>t. fuel_le (statement n t) (statement n' t)) \<and>
   (\<forall>t. fuel_le (assignment_statement n t) (assignment_statement n' t)) \<and>
   (\<forall>t. fuel_le (conditional_statement n t) (conditional_statement n' t)) \<and>
   (\<forall>t. fuel_le (loop_statement n t) (loop_statement n' t)) \<and>
   (\<forall>t. fuel_le (block n t) (block n' t))"
proof (induction n arbitrary: n')
  case 0
  show ?case by simp
next
  case (Suc n)
  from Suc.prems obtain m where m: "n' = Suc m" and le: "n \<le> m"
    by (cases n') auto
  from Suc.IH [OF le] le show ?case
    unfolding m
    by (intro conjI allI fuel_le_statement_list_step fuel_le_statement_list_loop_step
        fuel_le_statement_step fuel_le_assignment_statement_step
        fuel_le_conditional_statement_step fuel_le_loop_statement_step
        fuel_le_block_step) blast+
qed

lemma fuel_le_program: "n \<le> n' \<Longrightarrow> fuel_le (program n s) (program n' s)"
  unfolding program_def
  by (intro fuel_le_and_then fuel_le_statement_group [THEN conjunct1, rule_format]) simp_all

lemma fuel_le_parse: "n \<le> n' \<Longrightarrow> fuel_le (parse n s) (parse n' s)"
  unfolding parse_def
  by (intro fuel_le_and_then fuel_le_program) simp_all

lemma fuel_leD: "fuel_le a b \<Longrightarrow> a \<noteq> OutOfFuel \<Longrightarrow> b = a"
  by (auto simp: fuel_le_def)


section \<open>The properties of the specification\<close>

lemma keeps_never_rewinds: "keeps s m \<Longrightarrow> never_rewinds s m"
  by (cases m) (auto simp: never_rewinds_def follows_def)

lemmas keeps_statement_routines =
  keeps_statement_group [THEN conjunct1, rule_format, OF follows_refl]
  keeps_statement_group [THEN conjunct2, THEN conjunct1, rule_format, OF follows_refl]
  keeps_statement_group [THEN conjunct2, THEN conjunct2, THEN conjunct1, rule_format,
    OF follows_refl]
  keeps_statement_group [THEN conjunct2, THEN conjunct2, THEN conjunct2, THEN conjunct1,
    rule_format, OF follows_refl]
  keeps_statement_group [THEN conjunct2, THEN conjunct2, THEN conjunct2, THEN conjunct2,
    THEN conjunct1, rule_format, OF follows_refl]
  keeps_statement_group [THEN conjunct2, THEN conjunct2, THEN conjunct2, THEN conjunct2,
    THEN conjunct2, THEN conjunct1, rule_format, OF follows_refl]
  keeps_statement_group [THEN conjunct2, THEN conjunct2, THEN conjunct2, THEN conjunct2,
    THEN conjunct2, THEN conjunct2, rule_format, OF follows_refl]

lemmas keeps_expression_routines =
  keeps_expression_group [THEN conjunct1, rule_format, OF follows_refl]
  keeps_expression_group [THEN conjunct2, THEN conjunct1, rule_format, OF follows_refl]
  keeps_expression_group [THEN conjunct2, THEN conjunct2, THEN conjunct1, rule_format,
    OF follows_refl]
  keeps_expression_group [THEN conjunct2, THEN conjunct2, THEN conjunct2, THEN conjunct1,
    rule_format, OF follows_refl]
  keeps_expression_group [THEN conjunct2, THEN conjunct2, THEN conjunct2, THEN conjunct2,
    rule_format, OF follows_refl]

lemma keeps_cursor_operations:
  "keeps s (Returns () (consume_token s))" "keeps s (Returns () (skip_whitespace s))"
  "keeps s (expect_token s k)" "keeps s (newline s)" "keeps s (indent s)"
  "keeps s (logical_expression s)"
  by (simp_all add: follows_consume_token follows_skip_whitespace keeps_expect_token
      keeps_newline keeps_indent keeps_logical_expression)

text \<open>
  C7. Whatever the state and the fuel, every operation of the parser (\<open>consume_token\<close>,
  \<open>skip_whitespace\<close>, \<open>expect_token\<close>, \<open>newline\<close>, \<open>indent\<close> and each grammar
  routine up to \<open>parse\<close>) ends, by a return or by a raise, in a state whose index is not
  smaller than before and whose error log has the earlier log as a prefix.
\<close>

theorem cursor_and_log_only_grow:
  "never_rewinds s (Returns () (consume_token s)) \<and>
   never_rewinds s (Returns () (skip_whitespace s)) \<and>
   never_rewinds s (expect_token s k) \<and>
   never_rewinds s (newline s) \<and>
   never_rewinds s (indent s) \<and>
   never_rewinds s (logical_expression s) \<and>
   never_rewinds s (parse n s) \<and>
   never_rewinds s (program n s) \<and>
   never_rewinds s (statement_list n s) \<and>
   never_rewinds s (statement_list_loop n nd s) \<and>
   never_rewinds s (statement n s) \<and>
   never_rewinds s (assignment_statement n s) \<and>
   never_rewinds s (conditional_statement n s) \<and>
   never_rewinds s (loop_statement n s) \<and>
   never_rewinds s (block n s) \<and>
   never_rewinds s (expression n s) \<and>
   never_rewinds s (expression_loop n nd s) \<and>
   never_rewinds s (term n s) \<and>
   never_rewinds s (term_loop n nd s) \<and>
   never_rewinds s (factor n s)"
  by (intro conjI keeps_never_rewinds keeps_cursor_operations keeps_parse keeps_program
      keeps_statement_routines keeps_expression_routines)

lemma parse_two_numbers:
  "parse 14 (init [(''NUMBER'', ''1''), (''NUMBER'', ''2'')]) =
     Returns None
       \<lparr>tokens = [(''NUMBER'', ''1''), (''NUMBER'', ''2'')],
        current_token = Some (''NUMBER'', ''2''), index = 2,
        errors = [''Expected a statement type, found NUMBER: 1'',
                  ''Expected '' @ [CHR 0x27] @ ''NEWLINE'' @ [CHR 0x27] @ '', found NUMBER: 2'']\<rparr>"
  by code_simp

theorem cursor_and_log_only_grow_witness:
  "never_rewinds (init [(''NUMBER'', ''1''), (''NUMBER'', ''2'')])
     (Returns (None :: node option)
       \<lparr>tokens = [(''NUMBER'', ''1''), (''NUMBER'', ''2'')],
        current_token = Some (''NUMBER'', ''2''), index = 2,
        errors = [''Expected a statement type, found NUMBER: 1'',
                  ''Expected '' @ [CHR 0x27] @ ''NEWLINE'' @ [CHR 0x27] @ '', found NUMBER: 2'']\<rparr>)"
  using cursor_and_log_only_grow [of "init [(''NUMBER'', ''1''), (''NUMBER'', ''2'')]" _ 14]
  by (simp add: parse_two_numbers)


lemma settled: "fuel_le a b \<Longrightarrow> a = r \<Longrightarrow> r \<noteq> OutOfFuel \<Longrightarrow> b = r"
  by (auto simp: fuel_le_def)

lemma finishes_runs: "finishes s m \<Longrightarrow> m \<noteq> OutOfFuel"
  by (cases m) auto

lemma remaining_init [simp]: "remaining (init toks) = length toks"
  by (simp add: remaining_def init_def)

lemmas finishes_statement_list = finishes_statement_group [THEN conjunct1, rule_format]

lemma finishes_program:
  "5 * remaining s + 3 < n \<Longrightarrow> follows s t \<Longrightarrow> finishes s (program n t)"
  unfolding program_def
  by (auto intro!: finishes_intros finishes_callee [OF finishes_statement_list]
      split: option.split)

lemma finishes_parse: "5 * remaining s + 3 < n \<Longrightarrow> finishes s (parse n s)"
  unfolding parse_def
  by (auto intro!: finishes_intros finishes_program)

lemmas fuel_le_expression_routines =
  fuel_le_expression_group [THEN conjunct1, rule_format]
  fuel_le_expression_group [THEN conjunct2, THEN conjunct2, THEN conjunct1, rule_format]
  fuel_le_expression_group [THEN conjunct2, THEN conjunct2, THEN conjunct2, THEN conjunct2,
    rule_format]

lemmas finishes_expression_routines =
  finishes_expression_group [THEN conjunct1, rule_format]
  finishes_expression_group [THEN conjunct2, THEN conjunct2, THEN conjunct1, rule_format]
  finishes_expression_group [THEN conjunct2, THEN conjunct2, THEN conjunct2, THEN conjunct2,
    rule_format]

text \<open>
  C9. \<open>parse\<close> terminates on every token sequence: with fuel \<open>5 * length toks + 4\<close> or
  more it never runs out of fuel, and more fuel does not change its outcome. The same
  holds of \<open>statement_list\<close>, \<open>expression\<close>, \<open>term\<close> and \<open>factor\<close> started in any
  state, with five units of fuel per remaining token and five more: each turn of a loop
  and each way from \<open>factor\<close> back into \<open>expression\<close> consumes a token first.
\<close>

theorem parse_terminates:
  "(5 * length toks + 4 \<le> n \<longrightarrow>
      parse n (init toks) \<noteq> OutOfFuel \<and>
      parse n (init toks) = parse (5 * length toks + 4) (init toks)) \<and>
   (5 * remaining s + 5 \<le> m \<longrightarrow>
      statement_list m s \<noteq> OutOfFuel \<and> expression m s \<noteq> OutOfFuel \<and>
      term m s \<noteq> OutOfFuel \<and> factor m s \<noteq> OutOfFuel)"
proof (intro conjI impI)
  assume n: "5 * length toks + 4 \<le> n"
  have "finishes (init toks) (parse (5 * length toks + 4) (init toks))"
    by (rule finishes_parse) simp
  then have run: "parse (5 * length toks + 4) (init toks) \<noteq> OutOfFuel"
    by (rule finishes_runs)
  from fuel_le_parse [OF n] run
  show eq: "parse n (init toks) = parse (5 * length toks + 4) (init toks)"
    by (rule settled [OF _ refl])
  from run show "parse n (init toks) \<noteq> OutOfFuel"
    by (simp add: eq)
next
  assume m: "5 * remaining s + 5 \<le> m"
  then show "statement_list m s \<noteq> OutOfFuel"
    by (intro finishes_runs [OF finishes_statement_list]) simp
  from m show "expression m s \<noteq> OutOfFuel"
    by (intro finishes_runs [OF finishes_expression_routines(1)]) simp
  from m show "term m s \<noteq> OutOfFuel"
    by (intro finishes_runs [OF finishes_expression_routines(2)]) simp
  from m show "factor m s \<noteq> OutOfFuel"
    by (intro finishes_runs [OF finishes_expression_routines(3)]) simp
qed

theorem parse_terminates_witness:
  "5 * length tokens_assignment + 4 \<le> 24 \<and>
   parse 24 (init tokens_assignment) \<noteq> OutOfFuel \<and>
   5 * remaining (init tokens_sum_product) + 5 \<le> 30 \<and>
   expression 30 (init tokens_sum_product) \<noteq> OutOfFuel"
  using parse_terminates [of tokens_assignment 24 "init tokens_sum_product" 30]
  by (simp add: tokens_assignment_def tokens_sum_product_def)

lemma statement_list_loop_not_None:
  "statement_list_loop n nd s \<noteq> Returns None s'"
proof (induction n arbitrary: nd s)
  case 0
  show ?case by simp
next
  case (Suc n)
  show ?case
  proof (cases "statement n s")
    case (Returns r s1)
    with Suc show ?thesis by (cases r) auto
  qed auto
qed

lemma statement_list_not_None: "statement_list n s \<noteq> Returns None s'"
  by (cases n) (simp_all add: statement_list_loop_not_None)

text \<open>
  \<open>statement_list\<close> never returns the absence signal: whatever the state and the
  fuel, its outcome is not \<open>Returns None\<close>, and with fuel above \<open>5 * remaining s + 3\<close>
  it does not run out of fuel either. So \<open>program\<close> never takes its error branch: it
  is \<open>statement_list\<close> followed by wrapping the returned node, in the state
  \<open>statement_list\<close> left, and no diagnostic is appended.
\<close>

lemma statement_list_never_absent:
  "statement_list n s \<noteq> Returns None s' \<and>
   (5 * remaining s + 3 < n \<longrightarrow> statement_list n s \<noteq> OutOfFuel) \<and>
   program n s =
     and_then (statement_list n s)
       (\<lambda>statement_list_node s1.
          Returns (Some (Node ''program'' None [the statement_list_node])) s1)"
proof (intro conjI impI)
  show "statement_list n s \<noteq> Returns None s'" by (rule statement_list_not_None)
  show "statement_list n s \<noteq> OutOfFuel" if "5 * remaining s + 3 < n"
    using that by (intro finishes_runs [OF finishes_statement_list])
  show "program n s =
     and_then (statement_list n s)
       (\<lambda>statement_list_node s1.
          Returns (Some (Node ''program'' None [the statement_list_node])) s1)"
  proof (cases "statement_list n s")
    case (Returns r s1)
    with statement_list_not_None [of n s s1] obtain sl where "r = Some sl" by (cases r) auto
    with Returns show ?thesis by (simp add: program_def add_child_def)
  qed (simp_all add: program_def)
qed

text \<open>
  C8 fails where an exception passes through \<open>statement_list\<close>: on the single
  token \<open>1\<close> it does not return a node, it raises \<open>TypeError\<close>, and so does
  \<open>program\<close>. The error branch of \<open>program\<close> is not taken: the log holds the
  diagnostic of \<open>statement\<close> only.
\<close>

theorem statement_list_single_number_raises:
  "statement_list 9 (consume_token (init tokens_number)) =
     Raises TypeError
       \<lparr>tokens = tokens_number, current_token = None, index = 1,
        errors = [''Expected a statement type, found NUMBER: 1'']\<rparr> \<and>
   program 9 (consume_token (init tokens_number)) =
     Raises TypeError
       \<lparr>tokens = tokens_number, current_token = None, index = 1,
        errors = [''Expected a statement type, found NUMBER: 1'']\<rparr>"
  by code_simp

lemma assignment_statement_reads_next_lexeme:
  assumes c: "current_token s = Some (''IDENTIFIER'', x)"
    and i: "index s + 1 < length (tokens s)"
    and op: "tokens s ! index s = (''ASSIGNMENT_OPERATOR'', eq)"
    and t: "tokens s ! (index s + 1) = (k, l)"
  shows "current_token (consume_token (consume_token s)) = Some (k, l)"
    and "assignment_statement (Suc n) s =
      and_then (expression n (skip_whitespace (consume_token (consume_token (consume_token s)))))
        (\<lambda>expression_node s5.
           case expression_node of
             Some e \<Rightarrow>
               Returns (Some (Node ''assignment_statement'' None
                 [Node ''identifier'' (Some x) [], Node ''assignment_operator'' (Some l) [], e])) s5
           | None \<Rightarrow>
               and_then (append_found ''Expected an expression, found '' s5)
                 (\<lambda>u s6. Returns None s6))"
proof -
  from i op have c1: "current_token (consume_token s) = Some (''ASSIGNMENT_OPERATOR'', eq)"
    by (simp add: consume_token_def)
  then have sk: "skip_whitespace (consume_token s) = consume_token s"
    by (intro skip_whitespace_no_match) (simp add: match_token_def)
  from i t show c2: "current_token (consume_token (consume_token s)) = Some (k, l)"
    by (simp add: consume_token_def)
  from c c1 show "assignment_statement (Suc n) s =
      and_then (expression n (skip_whitespace (consume_token (consume_token (consume_token s)))))
        (\<lambda>expression_node s5.
           case expression_node of
             Some e \<Rightarrow>
               Returns (Some (Node ''assignment_statement'' None
                 [Node ''identifier'' (Some x) [], Node ''assignment_operator'' (Some l) [], e])) s5
           | None \<Rightarrow>
               and_then (append_found ''Expected an expression, found '' s5)
                 (\<lambda>u s6. Returns None s6))"
    by (simp add: match_token_def sk expect_token_def current_lexeme_Some [OF c]
        current_lexeme_Some [OF c2] add_child_def cong: option.case_cong)
qed

text \<open>
  C10. On a token sequence that begins \<open>IDENTIFIER\<close>, \<open>ASSIGNMENT_OPERATOR\<close>, \<open>t\<close>,
  with \<open>t = (k, l)\<close> any token: when \<open>assignment_statement\<close> reads the value of the
  \<open>assignment_operator\<close> node, \<open>expect_token\<close> has already moved past the operator, so
  the current token is \<open>t\<close> (the state with index 3 below). The node carries \<open>l\<close>, the
  lexeme of \<open>t\<close>, and \<open>expression\<close> starts only after \<open>consume_token\<close> has consumed
  \<open>t\<close> as well.
\<close>

theorem assignment_operator_node_carries_next_lexeme:
  "assignment_statement (Suc n)
     (consume_token
        (init ((''IDENTIFIER'', x) # (''ASSIGNMENT_OPERATOR'', eq) # (k, l) # rest))) =
   and_then
     (expression n (skip_whitespace (consume_token
        \<lparr>tokens = (''IDENTIFIER'', x) # (''ASSIGNMENT_OPERATOR'', eq) # (k, l) # rest,
         current_token = Some (k, l), index = 3, errors = []\<rparr>)))
     (\<lambda>expression_node s5.
        case expression_node of
          Some e \<Rightarrow>
            Returns (Some (Node ''assignment_statement'' None
              [Node ''identifier'' (Some x) [], Node ''assignment_operator'' (Some l) [], e])) s5
        | None \<Rightarrow>
            and_then (append_found ''Expected an expression, found '' s5)
              (\<lambda>u s6. Returns None s6))"
proof -
  let ?toks = "(''IDENTIFIER'', x) # (''ASSIGNMENT_OPERATOR'', eq) # (k, l) # rest"
  let ?s = "consume_token (init ?toks)"
  have c: "current_token ?s = Some (''IDENTIFIER'', x)"
    and i: "index ?s + 1 < length (tokens ?s)"
    and op: "tokens ?s ! index ?s = (''ASSIGNMENT_OPERATOR'', eq)"
    and t: "tokens ?s ! (index ?s + 1) = (k, l)"
    by (simp_all add: consume_token_def init_def)
  have "consume_token (consume_token ?s) =
      \<lparr>tokens = ?toks, current_token = Some (k, l), index = 3, errors = []\<rparr>"
    by (simp add: consume_token_def init_def)
  with assignment_statement_reads_next_lexeme(2) [OF c i op t, of n]
  show ?thesis by simp
qed

lemma assignment_of_two_numbers:
  "expression 8 (skip_whitespace (consume_token
        \<lparr>tokens = [(''IDENTIFIER'', ''x''), (''ASSIGNMENT_OPERATOR'', ''=''),
                   (''NUMBER'', ''1''), (''NUMBER'', ''2'')],
         current_token = Some (''NUMBER'', ''1''), index = 3, errors = []\<rparr>)) =
   Returns (Some (Node ''expression'' None [Node ''term'' None [Node ''number'' (Some ''2'') []]]))
     \<lparr>tokens = [(''IDENTIFIER'', ''x''), (''ASSIGNMENT_OPERATOR'', ''=''),
                (''NUMBER'', ''1''), (''NUMBER'', ''2'')],
      current_token = None, index = 4, errors = []\<rparr>"
  by code_simp

theorem assignment_operator_node_carries_next_lexeme_witness:
  "assignment_statement (Suc 8)
     (consume_token (init [(''IDENTIFIER'', ''x''), (''ASSIGNMENT_OPERATOR'', ''=''),
                           (''NUMBER'', ''1''), (''NUMBER'', ''2'')])) =
   Returns (Some (Node ''assignment_statement'' None
       [Node ''identifier'' (Some ''x'') [], Node ''assignment_operator'' (Some ''1'') [],
        Node ''expression'' None [Node ''term'' None [Node ''number'' (Some ''2'') []]]]))
     \<lparr>tokens = [(''IDENTIFIER'', ''x''), (''ASSIGNMENT_OPERATOR'', ''=''),
                (''NUMBER'', ''1''), (''NUMBER'', ''2'')],
      current_token = None, index = 4, errors = []\<rparr>"
  by (subst assignment_operator_node_carries_next_lexeme)
     (simp add: assignment_of_two_numbers)

lemma conditional_statement_on_example:
  "conditional_statement 1 (consume_token (init tokens_conditional)) =
     Returns (Some (Node ''conditional_statement'' (Some ''if'') []))
       \<lparr>tokens = tokens_conditional, current_token = Some (''IDENTIFIER'', ''c''),
        index = 2, errors = []\<rparr>"
  by code_simp

text \<open>
  C4, as stated, fails: on the tokens of a conditional with its block,
  \<open>conditional_statement\<close> returns a node, not the absence signal.
\<close>

theorem conditional_statement_not_absent:
  "conditional_statement 1 (consume_token (init tokens_conditional)) =
     Returns (Some (Node ''conditional_statement'' (Some ''if'') []))
       \<lparr>tokens = tokens_conditional, current_token = Some (''IDENTIFIER'', ''c''),
        index = 2, errors = []\<rparr> \<and>
   conditional_statement 1 (consume_token (init tokens_conditional)) \<noteq>
     Returns None
       \<lparr>tokens = tokens_conditional, current_token = Some (''IDENTIFIER'', ''c''),
        index = 2, errors = []\<rparr>"
  by (simp only: conditional_statement_on_example) simp

text \<open>
  C4, amended. When the current token is a \<open>CONDITIONAL_KEYWORD\<close> with lexeme \<open>l\<close>,
  \<open>logical_expression\<close> returns the absence signal and leaves the state as it is, and
  \<open>conditional_statement\<close> consumes the keyword only and returns the node it built
  before parsing the condition: a \<open>conditional_statement\<close> node with value \<open>l\<close> and no
  children. Neither of them appends a diagnostic.
\<close>

theorem conditional_statement_returns_childless_node:
  assumes "current_token s = Some (''CONDITIONAL_KEYWORD'', l)"
  shows "logical_expression (consume_token s) = Returns None (consume_token s) \<and>
    conditional_statement (Suc n) s =
      Returns (Some (Node ''conditional_statement'' (Some l) [])) (consume_token s) \<and>
    errors (consume_token s) = errors s"
proof -
  from assms have "skip_whitespace s = s"
    by (intro skip_whitespace_no_match) (simp add: match_token_def)
  with assms show ?thesis
    by (simp add: Let_def match_token_def current_lexeme_Some [OF assms]
        logical_expression_def)
qed

theorem conditional_statement_returns_childless_node_witness:
  "current_token (consume_token (init tokens_conditional)) = Some (''CONDITIONAL_KEYWORD'', ''if'') \<and>
   conditional_statement (Suc 4) (consume_token (init tokens_conditional)) =
     Returns (Some (Node ''conditional_statement'' (Some ''if'') []))
       (consume_token (consume_token (init tokens_conditional))) \<and>
   errors (consume_token (consume_token (init tokens_conditional))) = []"
proof -
  have c: "current_token (consume_token (init tokens_conditional)) =
      Some (''CONDITIONAL_KEYWORD'', ''if'')"
    by (simp add: consume_token_def init_def tokens_conditional_def)
  from conditional_statement_returns_childless_node [OF c, of 4] c show ?thesis
    by (simp add: init_def consume_token_def)
qed


lemma expression_sum_product_5:
  "expression 5 (consume_token (init tokens_sum_product)) =
     Returns
       (Some (Node ''expression'' None
          [Node ''term'' None
             [Node ''identifier'' (Some ''a'') [],
              Node ''arithmetic_operator'' (Some ''+'') [],
              Node ''number'' (Some ''1'') [],
              Node ''arithmetic_operator'' (Some ''*'') [],
              Node ''number'' (Some ''2'') []]]))
       \<lparr>tokens = tokens_sum_product, current_token = None, index = 5, errors = []\<rparr>"
  by code_simp

text \<open>
  C2, as stated, fails: on the tokens of \<open>a + 1 * 2\<close> the node \<open>expression\<close> returns
  has one child, not three.
\<close>

theorem expression_sum_product_has_one_child:
  "expression 5 (consume_token (init tokens_sum_product)) =
     Returns
       (Some (Node ''expression'' None
          [Node ''term'' None
             [Node ''identifier'' (Some ''a'') [],
              Node ''arithmetic_operator'' (Some ''+'') [],
              Node ''number'' (Some ''1'') [],
              Node ''arithmetic_operator'' (Some ''*'') [],
              Node ''number'' (Some ''2'') []]]))
       \<lparr>tokens = tokens_sum_product, current_token = None, index = 5, errors = []\<rparr> \<and>
   length (children (Node ''expression'' None
          [Node ''term'' None
             [Node ''identifier'' (Some ''a'') [],
              Node ''arithmetic_operator'' (Some ''+'') [],
              Node ''number'' (Some ''1'') [],
              Node ''arithmetic_operator'' (Some ''*'') [],
              Node ''number'' (Some ''2'') []]])) \<noteq> 3"
  by (simp only: expression_sum_product_5) simp

text \<open>
  C2, amended. With fuel 5 or more, on the tokens of \<open>a + 1 * 2\<close> the node
  \<open>expression\<close> returns has exactly one child, a \<open>term\<close> node with five children in
  order: \<open>identifier a\<close>, \<open>arithmetic_operator +\<close>, \<open>number 1\<close>,
  \<open>arithmetic_operator *\<close>, \<open>number 2\<close>. The loop of \<open>term\<close> takes every
  \<open>ARITHMETIC_OPERATOR\<close> token, so none is left for the loop of \<open>expression\<close>.
\<close>

theorem expression_sum_product_single_term:
  "5 \<le> n \<Longrightarrow>
   expression n (consume_token (init tokens_sum_product)) =
     Returns
       (Some (Node ''expression'' None
          [Node ''term'' None
             [Node ''identifier'' (Some ''a'') [],
              Node ''arithmetic_operator'' (Some ''+'') [],
              Node ''number'' (Some ''1'') [],
              Node ''arithmetic_operator'' (Some ''*'') [],
              Node ''number'' (Some ''2'') []]]))
       \<lparr>tokens = tokens_sum_product, current_token = None, index = 5, errors = []\<rparr>"
  by (rule settled [OF fuel_le_expression_routines(1) expression_sum_product_5]) simp_all

theorem expression_sum_product_single_term_witness:
  "(5::nat) \<le> 6 \<and>
   expression 6 (consume_token (init tokens_sum_product)) =
     Returns
       (Some (Node ''expression'' None
          [Node ''term'' None
             [Node ''identifier'' (Some ''a'') [],
              Node ''arithmetic_operator'' (Some ''+'') [],
              Node ''number'' (Some ''1'') [],
              Node ''arithmetic_operator'' (Some ''*'') [],
              Node ''number'' (Some ''2'') []]]))
       \<lparr>tokens = tokens_sum_product, current_token = None, index = 5, errors = []\<rparr>"
  using expression_sum_product_single_term [of 6] by simp

text \<open>
  With a \<open>WHITESPACE\<close> token after the operator the second \<open>consume_token\<close> of
  \<open>assignment_statement\<close> consumes the whitespace instead of the number, and the
  statement is parsed; the operator node then holds the whitespace.
\<close>

lemma parse_assignment_with_whitespace:
  "parse 34
     (init [(''IDENTIFIER'', ''x''), (''WHITESPACE'', '' ''), (''ASSIGNMENT_OPERATOR'', ''=''),
            (''WHITESPACE'', '' ''), (''NUMBER'', ''1''), (''NEWLINE'', ''\<newline>'')]) =
     Returns
       (Some (Node ''program'' None
          [Node ''statement_list'' None
             [Node ''assignment_statement'' None
                [Node ''identifier'' (Some ''x'') [],
                 Node ''assignment_operator'' (Some '' '') [],
                 Node ''expression'' None
                   [Node ''term'' None [Node ''number'' (Some ''1'') []]]]]]))
       \<lparr>tokens =
          [(''IDENTIFIER'', ''x''), (''WHITESPACE'', '' ''), (''ASSIGNMENT_OPERATOR'', ''=''),
           (''WHITESPACE'', '' ''), (''NUMBER'', ''1''), (''NEWLINE'', ''\<newline>'')],
        current_token = None, index = 6, errors = []\<rparr>"
  by code_simp

text \<open>
  C1 fails already for one repetition: on the tokens of \<open>x = 1\<close> and a newline, with
  the fuel that \<open>parse_terminates\<close> shows to be enough, \<open>parse\<close> raises \<open>TypeError\<close>.
  The number is consumed as the value of the operator node, \<open>factor\<close> rejects the
  newline, and \<open>term\<close> formats its diagnostic at the end of the input.
\<close>

theorem parse_assignment_raises:
  "parse (5 * length tokens_assignment + 4) (init tokens_assignment) =
     Raises TypeError
       \<lparr>tokens = tokens_assignment, current_token = None, index = 4,
        errors = [''Invalid token NEWLINE'']\<rparr>"
  by code_simp

text \<open>
  C3 fails at the end of the input: \<open>expect_token\<close> raises \<open>TypeError\<close> and appends
  nothing. \<open>parse\<close> gets there on the single token \<open>if\<close>, through \<open>statement\<close> and
  \<open>newline\<close>.
\<close>

theorem expect_token_raises_at_end_of_input:
  "expect_token
     \<lparr>tokens = [(''CONDITIONAL_KEYWORD'', ''if'')], current_token = None, index = 1,
      errors = []\<rparr> ''NEWLINE'' =
     Raises TypeError
       \<lparr>tokens = [(''CONDITIONAL_KEYWORD'', ''if'')], current_token = None, index = 1,
        errors = []\<rparr> \<and>
   parse 9 (init [(''CONDITIONAL_KEYWORD'', ''if'')]) =
     Raises TypeError
       \<lparr>tokens = [(''CONDITIONAL_KEYWORD'', ''if'')], current_token = None, index = 1,
        errors = []\<rparr>"
  by code_simp

lemma expect_token_with_current:
  "current_token s = Some (k', l) \<Longrightarrow>
   expect_token s k =
     (if k' = k then Returns () (consume_token s)
      else Returns ()
        (s\<lparr>errors := errors s @
           [''Expected '' @ [CHR 0x27] @ k @ [CHR 0x27] @ '', found '' @ k' @ '': '' @ l]\<rparr>))"
  by (simp add: expect_token_def match_token_def append_found_def)

lemma program_unrecognised_first_token:
  assumes "k \<noteq> ''IDENTIFIER''" "k \<noteq> ''CONDITIONAL_KEYWORD''" "k \<noteq> ''LOOP_KEYWORD''"
  shows "\<exists>s'. program (Suc (Suc (Suc n))) (consume_token (init ((k, l) # t # rest))) =
           Returns (Some (Node ''program'' None [Node ''statement_list'' None []])) s' \<and>
         filter (prefix ''Expected a statement type'') (errors s') =
           [''Expected a statement type, found '' @ k @ '': '' @ l]"
  using assms
  by (cases t)
     (auto simp: program_def init_def consume_token_def match_token_def append_found_def
       newline_def expect_token_def add_child_def)

text \<open>
  C5 fails on a sequence of one token: on the single token \<open>1\<close>, \<open>parse\<close> appends the
  diagnostic and then raises \<open>TypeError\<close> in \<open>newline\<close>, so that no
  \<open>statement_list\<close> node is returned.
\<close>

theorem parse_single_number_raises:
  "parse (5 * length tokens_number + 4) (init tokens_number) =
     Raises TypeError
       \<lparr>tokens = tokens_number, current_token = None, index = 1,
        errors = [''Expected a statement type, found NUMBER: 1'']\<rparr>"
  by code_simp

text \<open>
  C6 holds for \<open>( a + 1 )\<close>: \<open>factor\<close> returns the node of the inner expression.
  It fails for \<open>( a + 1\<close>: \<open>expect_token\<close> is called at the end of the input, and
  \<open>factor\<close> raises \<open>TypeError\<close> with nothing appended and no node returned.
\<close>

theorem factor_unclosed_parenthesis_raises:
  "factor 30 (consume_token (init tokens_parenthesised)) =
     Returns
       (Some (Node ''expression'' None
          [Node ''term'' None
             [Node ''identifier'' (Some ''a'') [],
              Node ''arithmetic_operator'' (Some ''+'') [],
              Node ''number'' (Some ''1'') []]]))
       \<lparr>tokens = tokens_parenthesised, current_token = None, index = 5, errors = []\<rparr> \<and>
   expression 29 (consume_token (consume_token (init tokens_parenthesised))) =
     Returns
       (Some (Node ''expression'' None
          [Node ''term'' None
             [Node ''identifier'' (Some ''a'') [],
              Node ''arithmetic_operator'' (Some ''+'') [],
              Node ''number'' (Some ''1'') []]]))
       \<lparr>tokens = tokens_parenthesised,
        current_token = Some (''CLOSING_PARENTHESIS'', '')''), index = 5, errors = []\<rparr> \<and>
   factor 25 (consume_token (init tokens_unclosed)) =
     Raises TypeError
       \<lparr>tokens = tokens_unclosed, current_token = None, index = 4, errors = []\<rparr>"
  by code_simp


end
